theory Spec2Isabelle
  imports Main
begin

section \<open>Python strings\<close>

text \<open>
  A Python \<open>str\<close> is a sequence of Unicode code points, so a string is a list of
  numbers and \<open>length\<close> counts code points.  \<open>S\<close> reads an ASCII literal of the
  source as such a list.
\<close>

type_synonym pystr = "nat list"

definition S :: "string \<Rightarrow> pystr" where
  "S s = map of_char s"

text \<open>\<open>s.startswith(p)\<close>\<close>

definition startswith :: "pystr \<Rightarrow> pystr \<Rightarrow> bool" where
  "startswith s p = (take (length p) s = p)"

text \<open>
  \<open>str.upper()\<close> and \<open>str.lower()\<close>.  On a string of ASCII code points Python
  maps \<open>a..z\<close> to \<open>A..Z\<close> (and back) and leaves every other code point alone.
  On any other string the result comes from the Unicode character database of the
  interpreter, which is not part of this repository: it is the parameter
  \<open>unicode_case\<close>, and every theorem below holds for each value of it.
\<close>

record unicode_case =
  full_upper :: "pystr \<Rightarrow> pystr"
  full_lower :: "pystr \<Rightarrow> pystr"

definition ascii_upper :: "nat \<Rightarrow> nat" where
  "ascii_upper c = (if 97 \<le> c \<and> c \<le> 122 then c - 32 else c)"

definition ascii_lower :: "nat \<Rightarrow> nat" where
  "ascii_lower c = (if 65 \<le> c \<and> c \<le> 90 then c + 32 else c)"

definition isascii :: "pystr \<Rightarrow> bool" where
  "isascii s = list_all (\<lambda>c. c < 128) s"

definition upper :: "unicode_case \<Rightarrow> pystr \<Rightarrow> pystr" where
  "upper cm s = (if isascii s then map ascii_upper s else full_upper cm s)"

definition lower :: "unicode_case \<Rightarrow> pystr \<Rightarrow> pystr" where
  "lower cm s = (if isascii s then map ascii_lower s else full_lower cm s)"

text \<open>
  A case mapping that leaves strings with a non-ASCII code point as they are.  It closes
  statements about ASCII inputs, where the mapping is never consulted.
\<close>

definition uncased :: unicode_case where
  "uncased = \<lparr>full_upper = (\<lambda>s. s), full_lower = (\<lambda>s. s)\<rparr>"

text \<open>\<open>d.get(k, default)\<close> on a dictionary written as the list of its items.\<close>

definition dict_get :: "('k \<times> 'v) list \<Rightarrow> 'k \<Rightarrow> 'v \<Rightarrow> 'v" where
  "dict_get d k dflt = (case map_of d k of None \<Rightarrow> dflt | Some v \<Rightarrow> v)"

section \<open>Key names\<close>

text \<open>
  \<open>SamsungTV.key\<close> (samsung\_remote.py, lines 112-113) and
  \<open>SamsungTVAutomation.send_key\<close> (play\_iplayer.py, lines 56-57):
  \<^verbatim>\<open>if not key_name.startswith("KEY_"): key_name = f"KEY_{key_name.upper()}"\<close>
\<close>

definition normalize_prefix :: "unicode_case \<Rightarrow> pystr \<Rightarrow> pystr" where
  "normalize_prefix cm key_name =
     (if \<not> startswith key_name (S ''KEY_'') then S ''KEY_'' @ upper cm key_name
      else key_name)"

text \<open>\<open>SamsungRemote.KEYS\<close> (tv\_controller.py, lines 157-169).\<close>

definition KEYS :: "(pystr \<times> pystr) list" where
  "KEYS = map (\<lambda>(k, v). (S k, S v))
     [(''power'', ''KEY_POWER''), (''poweroff'', ''KEY_POWEROFF''),
      (''up'', ''KEY_UP''), (''down'', ''KEY_DOWN''), (''left'', ''KEY_LEFT''),
      (''right'', ''KEY_RIGHT''),
      (''enter'', ''KEY_ENTER''), (''return'', ''KEY_RETURN''), (''exit'', ''KEY_EXIT''),
      (''home'', ''KEY_HOME''), (''menu'', ''KEY_MENU''), (''source'', ''KEY_SOURCE''),
      (''volup'', ''KEY_VOLUP''), (''voldown'', ''KEY_VOLDOWN''), (''mute'', ''KEY_MUTE''),
      (''chup'', ''KEY_CHUP''), (''chdown'', ''KEY_CHDOWN''),
      (''0'', ''KEY_0''), (''1'', ''KEY_1''), (''2'', ''KEY_2''), (''3'', ''KEY_3''),
      (''4'', ''KEY_4''),
      (''5'', ''KEY_5''), (''6'', ''KEY_6''), (''7'', ''KEY_7''), (''8'', ''KEY_8''),
      (''9'', ''KEY_9''),
      (''play'', ''KEY_PLAY''), (''pause'', ''KEY_PAUSE''), (''stop'', ''KEY_STOP''),
      (''red'', ''KEY_RED''), (''green'', ''KEY_GREEN''), (''yellow'', ''KEY_YELLOW''),
      (''blue'', ''KEY_BLUE''),
      (''apps'', ''KEY_APPS''), (''info'', ''KEY_INFO''), (''guide'', ''KEY_GUIDE'')]"

text \<open>
  \<open>SamsungRemote.send_key\<close> (tv\_controller.py, line 233):
  \<^verbatim>\<open>key_code = self.KEYS.get(key.lower(), f"KEY_{key.upper()}")\<close>
\<close>

definition normalize_table :: "unicode_case \<Rightarrow> pystr \<Rightarrow> pystr" where
  "normalize_table cm key = dict_get KEYS (lower cm key) (S ''KEY_'' @ upper cm key)"

text \<open>
  Two strings are equal up to letter case when they have the same lower-case and the
  same upper-case form.  (Unicode case mapping is not a bijection, so the two are asked
  for separately; on ASCII strings each implies the other.)
\<close>

definition caseless_eq :: "unicode_case \<Rightarrow> pystr \<Rightarrow> pystr \<Rightarrow> bool" where
  "caseless_eq cm x y = (lower cm x = lower cm y \<and> upper cm x = upper cm y)"

section \<open>Bytes: UTF-8 and base64\<close>

text \<open>
  The exceptions of the interpreter that the modelled code can meet.  A call that can
  raise returns a sum: \<open>Inl\<close> the exception, \<open>Inr\<close> the value.
\<close>

datatype py_exn = AttributeError | TypeError | ValueError | UnicodeEncodeError
  | UnicodeDecodeError

type_synonym bytes = "nat list"

text \<open>
  \<open>str.encode()\<close>: UTF-8, strict.  A surrogate code point raises; a number that is no
  code point at all (\<open>0x110000\<close> and above) cannot occur in a \<open>str\<close> and is
  refused in the same way.
\<close>

definition utf8_char :: "nat \<Rightarrow> py_exn + bytes" where
  "utf8_char c =
     (if c < 0x80 then Inr [c]
      else if c < 0x800 then Inr [0xC0 + c div 64, 0x80 + c mod 64]
      else if c < 0x10000 then
        (if 0xD800 \<le> c \<and> c \<le> 0xDFFF then Inl UnicodeEncodeError
         else Inr [0xE0 + c div 4096, 0x80 + c div 64 mod 64, 0x80 + c mod 64])
      else if c < 0x110000 then
        Inr [0xF0 + c div 262144, 0x80 + c div 4096 mod 64, 0x80 + c div 64 mod 64,
             0x80 + c mod 64]
      else Inl UnicodeEncodeError)"

fun encode :: "pystr \<Rightarrow> py_exn + bytes" where
  "encode [] = Inr []"
| "encode (c # cs) =
     (case utf8_char c of
        Inl e \<Rightarrow> Inl e
      | Inr bs \<Rightarrow> (case encode cs of Inl e \<Rightarrow> Inl e | Inr rest \<Rightarrow> Inr (bs @ rest)))"

text \<open>
  \<open>bytes.decode()\<close>: UTF-8, strict (no overlong form, no surrogate, nothing above
  \<open>0x10FFFF\<close>).
\<close>

definition is_cont :: "nat \<Rightarrow> bool" where
  "is_cont b = (0x80 \<le> b \<and> b < 0xC0)"

fun utf8_decode :: "bytes \<Rightarrow> pystr option" where
  "utf8_decode [] = Some []"
| "utf8_decode (b0 # bs) =
     (if b0 < 0x80 then map_option ((#) b0) (utf8_decode bs)
      else if 0xC2 \<le> b0 \<and> b0 < 0xE0 then
        (case bs of
           b1 # r \<Rightarrow>
             if is_cont b1
             then map_option ((#) ((b0 - 0xC0) * 64 + (b1 - 0x80))) (utf8_decode r)
             else None
         | _ \<Rightarrow> None)
      else if 0xE0 \<le> b0 \<and> b0 < 0xF0 then
        (case bs of
           b1 # b2 # r \<Rightarrow>
             (let c = (b0 - 0xE0) * 4096 + (b1 - 0x80) * 64 + (b2 - 0x80)
              in if is_cont b1 \<and> is_cont b2 \<and> 0x800 \<le> c \<and> \<not> (0xD800 \<le> c \<and> c \<le> 0xDFFF)
                 then map_option ((#) c) (utf8_decode r)
                 else None)
         | _ \<Rightarrow> None)
      else if 0xF0 \<le> b0 \<and> b0 < 0xF8 then
        (case bs of
           b1 # b2 # b3 # r \<Rightarrow>
             (let c = (b0 - 0xF0) * 262144 + (b1 - 0x80) * 4096 + (b2 - 0x80) * 64
                      + (b3 - 0x80)
              in if is_cont b1 \<and> is_cont b2 \<and> is_cont b3 \<and> 0x10000 \<le> c \<and> c < 0x110000
                 then map_option ((#) c) (utf8_decode r)
                 else None)
         | _ \<Rightarrow> None)
      else None)"

definition decode :: "bytes \<Rightarrow> py_exn + pystr" where
  "decode bs = (case utf8_decode bs of None \<Rightarrow> Inl UnicodeDecodeError | Some s \<Rightarrow> Inr s)"

text \<open>\<open>base64.b64encode\<close>: the standard alphabet, padded with \<open>=\<close> (61).\<close>

definition b64_char :: "nat \<Rightarrow> nat" where
  "b64_char i =
     (if i < 26 then 65 + i else if i < 52 then 71 + i else if i < 62 then i - 4
      else if i = 62 then 43 else 47)"

fun b64encode :: "bytes \<Rightarrow> bytes" where
  "b64encode [] = []"
| "b64encode [a] = [b64_char (a div 4), b64_char (a mod 4 * 16), 61, 61]"
| "b64encode [a, b] =
     [b64_char (a div 4), b64_char (a mod 4 * 16 + b div 16), b64_char (b mod 16 * 4), 61]"
| "b64encode (a # b # c # r) =
     [b64_char (a div 4), b64_char (a mod 4 * 16 + b div 16),
      b64_char (b mod 16 * 4 + c div 64), b64_char (c mod 64)] @ b64encode r"

text \<open>
  The receiving side of a base64 field: a strict decoder (RFC 4648: groups of four
  characters of the alphabet, padding in the last group only).  \<open>b64_last\<close> reads the
  last group, \<open>b64_group\<close> every other one.
\<close>

definition b64_val :: "nat \<Rightarrow> nat option" where
  "b64_val c =
     (if 65 \<le> c \<and> c \<le> 90 then Some (c - 65)
      else if 97 \<le> c \<and> c \<le> 122 then Some (c - 71)
      else if 48 \<le> c \<and> c \<le> 57 then Some (c + 4)
      else if c = 43 then Some 62
      else if c = 47 then Some 63
      else None)"

definition b64_last :: "nat \<Rightarrow> nat \<Rightarrow> nat \<Rightarrow> nat \<Rightarrow> bytes option" where
  "b64_last p q r s =
     (case (b64_val p, b64_val q) of
        (Some i, Some j) \<Rightarrow>
          (if r = 61 \<and> s = 61 then Some [i * 4 + j div 16]
           else (case b64_val r of
                   None \<Rightarrow> None
                 | Some k \<Rightarrow>
                     (if s = 61 then Some [i * 4 + j div 16, j mod 16 * 16 + k div 4]
                      else (case b64_val s of
                              None \<Rightarrow> None
                            | Some l \<Rightarrow>
                                Some [i * 4 + j div 16, j mod 16 * 16 + k div 4,
                                      k mod 4 * 64 + l]))))
      | _ \<Rightarrow> None)"

definition b64_group :: "nat \<Rightarrow> nat \<Rightarrow> nat \<Rightarrow> nat \<Rightarrow> bytes option" where
  "b64_group p q r s =
     (case (b64_val p, b64_val q, b64_val r, b64_val s) of
        (Some i, Some j, Some k, Some l) \<Rightarrow>
          Some [i * 4 + j div 16, j mod 16 * 16 + k div 4, k mod 4 * 64 + l]
      | _ \<Rightarrow> None)"

fun b64decode :: "bytes \<Rightarrow> bytes option" where
  "b64decode [] = Some []"
| "b64decode (p # q # r # s # rest) =
     (if rest = [] then b64_last p q r s
      else (case b64_group p q r s of
              None \<Rightarrow> None
            | Some g \<Rightarrow> map_option ((@) g) (b64decode rest)))"
| "b64decode _ = None"

section \<open>Python values and JSON\<close>

text \<open>
  The values \<open>json.loads\<close> can return and \<open>json.dumps\<close> is given here: \<open>None\<close>,
  booleans, integers, strings, lists and dictionaries (a dictionary is the list of its
  items, read from the front).  JSON numbers with a fraction or an exponent (Python
  floats) are outside the model.
\<close>

datatype pyval = PNone | PBool bool | PInt int | PStr pystr | PList "pyval list"
  | PDict "(pystr \<times> pyval) list"

text \<open>Truth value of an object, as \<open>if x\<close>, \<open>not x\<close> and \<open>x and y\<close> test it.\<close>

fun truthy :: "pyval \<Rightarrow> bool" where
  "truthy PNone = False"
| "truthy (PBool b) = b"
| "truthy (PInt i) = (i \<noteq> 0)"
| "truthy (PStr s) = (s \<noteq> [])"
| "truthy (PList xs) = (xs \<noteq> [])"
| "truthy (PDict d) = (d \<noteq> [])"

text \<open>
  \<open>x == y\<close>.  A boolean is the integer 0 or 1; two dictionaries are equal when they
  have the same keys with equal values, in any order; values of different kinds are
  different.  \<open>x != y\<close> is its negation.
\<close>

fun py_num :: "pyval \<Rightarrow> int option" where
  "py_num (PBool b) = Some (if b then 1 else 0)"
| "py_num (PInt i) = Some i"
| "py_num _ = None"

fun py_eq :: "pyval \<Rightarrow> pyval \<Rightarrow> bool" where
  "py_eq (PList xs) (PList ys) = list_all2 py_eq xs ys"
| "py_eq (PDict a) (PDict b) =
     (length a = length b \<and>
      list_all (\<lambda>(k, v). case map_of b k of None \<Rightarrow> False | Some u \<Rightarrow> py_eq v u) a)"
| "py_eq (PStr a) (PStr b) = (a = b)"
| "py_eq PNone PNone = True"
| "py_eq x y = (case (py_num x, py_num y) of (Some i, Some j) \<Rightarrow> i = j | _ \<Rightarrow> False)"

text \<open>\<open>x.get(k, default)\<close>: only a dictionary has the method.\<close>

fun py_get :: "pyval \<Rightarrow> pystr \<Rightarrow> pyval \<Rightarrow> py_exn + pyval" where
  "py_get (PDict d) k dflt = Inr (dict_get d k dflt)"
| "py_get _ k dflt = Inl AttributeError"

text \<open>
  \<open>json.dumps\<close> with its defaults: items separated by \<open>", "\<close>, key and value by
  \<open>": "\<close>, and every character outside printable ASCII written as an escape
  (\<open>ensure_ascii\<close>), a code point above \<open>0xFFFF\<close> as a surrogate pair.
\<close>

definition hexdigit :: "nat \<Rightarrow> nat" where
  "hexdigit n = (if n < 10 then 48 + n else 87 + n)"

definition hex4 :: "nat \<Rightarrow> pystr" where
  "hex4 n = [hexdigit (n div 4096 mod 16), hexdigit (n div 256 mod 16),
             hexdigit (n div 16 mod 16), hexdigit (n mod 16)]"

definition json_escape :: "nat \<Rightarrow> pystr" where
  "json_escape c =
     (if c = 34 then [92, 34]
      else if c = 92 then [92, 92]
      else if c = 8 then [92, 98]
      else if c = 12 then [92, 102]
      else if c = 10 then [92, 110]
      else if c = 13 then [92, 114]
      else if c = 9 then [92, 116]
      else if 32 \<le> c \<and> c \<le> 126 then [c]
      else if c < 0x10000 then [92, 117] @ hex4 c
      else [92, 117] @ hex4 (0xD800 + (c - 0x10000) div 1024 mod 1024)
           @ [92, 117] @ hex4 (0xDC00 + (c - 0x10000) mod 1024))"

definition json_str :: "pystr \<Rightarrow> pystr" where
  "json_str s = [34] @ concat (map json_escape s) @ [34]"

function dec_digits :: "nat \<Rightarrow> pystr" where
  "dec_digits n = (if n < 10 then [48 + n] else dec_digits (n div 10) @ [48 + n mod 10])"
  by pat_completeness auto
termination
  by (relation "measure (\<lambda>n. n)") auto

definition int_str :: "int \<Rightarrow> pystr" where
  "int_str i = (if i < 0 then 45 # dec_digits (nat (- i)) else dec_digits (nat i))"

fun join :: "pystr \<Rightarrow> pystr list \<Rightarrow> pystr" where
  "join sep [] = []"
| "join sep [x] = x"
| "join sep (x # y # ys) = x @ sep @ join sep (y # ys)"

fun json_dumps :: "pyval \<Rightarrow> pystr" where
  "json_dumps PNone = S ''null''"
| "json_dumps (PBool b) = (if b then S ''true'' else S ''false'')"
| "json_dumps (PInt i) = int_str i"
| "json_dumps (PStr s) = json_str s"
| "json_dumps (PList xs) = S ''['' @ join (S '', '') (map json_dumps xs) @ S '']''"
| "json_dumps (PDict d) =
     S ''{'' @ join (S '', '') (map (\<lambda>(k, v). json_str k @ S '': '' @ json_dumps v) d)
     @ S ''}''"

section \<open>The outside world\<close>

text \<open>
  What the scripts act on: the token file (\<open>None\<close> when it does not exist), the calls
  of \<open>websockets.connect\<close> made so far (each recorded by the token its URL carries,
  \<open>PNone\<close> for a URL without one), the frames handed to \<open>ws.send\<close> (with the
  connection they went to: a connection is the number of the call that opened it), and
  the UDP datagrams sent (flag \<open>SO_BROADCAST\<close>, address, port, payload).
  A connection that was opened accepts every frame, and the token file can be written.
\<close>

record world =
  token_file :: "pystr option"
  dialled :: "pyval list"
  sent :: "(nat \<times> pystr) list"
  datagrams :: "(bool \<times> pystr \<times> nat \<times> bytes) list"

text \<open>
  What one call of \<open>connect()\<close> meets: whether \<open>import websockets\<close> succeeds,
  whether \<open>websockets.connect\<close> returns within its timeout, and what
  \<open>ws.recv()\<close> followed by \<open>json.loads\<close> gives.
\<close>

datatype handshake = RecvTimeout | RecvError | NotJson | Parsed pyval

datatype transport = OpenTimeout | OpenError | Opened handshake

record env =
  websockets_installed :: bool
  transport :: transport

type_synonym 'st result = "(py_exn + pyval) \<times> 'st"

section \<open>samsung\_remote.py\<close>


text \<open>\<open>str.strip()\<close> removes the white space of Unicode at both ends.\<close>

definition isspace :: "nat \<Rightarrow> bool" where
  "isspace c =
     ((0x09 \<le> c \<and> c \<le> 0x0D) \<or> (0x1C \<le> c \<and> c \<le> 0x20) \<or> c = 0x85 \<or> c = 0xA0
      \<or> c = 0x1680 \<or> (0x2000 \<le> c \<and> c \<le> 0x200A) \<or> c = 0x2028 \<or> c = 0x2029
      \<or> c = 0x202F \<or> c = 0x205F \<or> c = 0x3000)"

definition strip :: "pystr \<Rightarrow> pystr" where
  "strip s = rev (dropWhile isspace (rev (dropWhile isspace s)))"

definition load_token :: "world \<Rightarrow> pyval" where
  "load_token w = (case token_file w of Some t \<Rightarrow> PStr (strip t) | None \<Rightarrow> PNone)"

text \<open>
  \<open>save_token\<close>: \<open>open(TOKEN_FILE, "w")\<close> empties the file, then \<open>f.write(token)\<close>
  raises on an argument that is not a \<open>str\<close>, and on a \<open>str\<close> that UTF-8 cannot encode.
\<close>

definition save_token :: "pyval \<Rightarrow> world \<Rightarrow> world result" where
  "save_token tok w =
     (case tok of
        PStr t \<Rightarrow>
          (case encode t of
             Inl ex \<Rightarrow> (Inl ex, w\<lparr>token_file := Some []\<rparr>)
           | Inr bs \<Rightarrow> (Inr PNone, w\<lparr>token_file := Some t\<rparr>))
      | _ \<Rightarrow> (Inl TypeError, w\<lparr>token_file := Some []\<rparr>))"

record samsung_tv =
  ws :: "nat option"
  token :: pyval
  connected :: bool

definition SamsungTV :: "world \<Rightarrow> samsung_tv" where
  "SamsungTV w = \<lparr>ws = None, token = load_token w, connected = False\<rparr>"

text \<open>
  \<open>SamsungTV.connect\<close>, lines 93-102: the handshake message, once parsed.  Every
  exception in there is caught by \<open>except Exception\<close> (line 103) and becomes
  \<open>return False\<close>; an event of another type leaves the \<open>if\<close> of line 95 and the
  \<open>try\<close>, and the function ends without a \<open>return\<close>.
\<close>

definition on_handshake :: "pyval \<Rightarrow> samsung_tv \<Rightarrow> world \<Rightarrow> (samsung_tv \<times> world) result" where
  "on_handshake data tv w =
     (case py_get data (S ''event'') PNone of
        Inl ex \<Rightarrow> (Inr (PBool False), tv, w)
      | Inr event \<Rightarrow>
          if py_eq event (PStr (S ''ms.channel.connect'')) then
            (case py_get data (S ''data'') (PDict []) of
               Inl ex \<Rightarrow> (Inr (PBool False), tv, w)
             | Inr d \<Rightarrow>
                 (case py_get d (S ''token'') PNone of
                    Inl ex \<Rightarrow> (Inr (PBool False), tv, w)
                  | Inr new_token \<Rightarrow>
                      if truthy new_token \<and> \<not> py_eq new_token (token tv) then
                        (case save_token new_token w of
                           (Inl ex, w') \<Rightarrow> (Inr (PBool False), tv\<lparr>token := new_token\<rparr>, w')
                         | (Inr u, w') \<Rightarrow>
                             (Inr (PBool True), tv\<lparr>token := new_token, connected := True\<rparr>, w'))
                      else (Inr (PBool True), tv\<lparr>connected := True\<rparr>, w)))
          else (Inr PNone, tv, w))"

text \<open>\<open>SamsungTV.connect\<close> (lines 67-105).\<close>

definition connect :: "env \<Rightarrow> samsung_tv \<Rightarrow> world \<Rightarrow> (samsung_tv \<times> world) result" where
  "connect e tv w =
     (if connected tv then (Inr (PBool True), tv, w)
      else if \<not> websockets_installed e then (Inr (PBool False), tv, w)
      else
        let w1 = w\<lparr>dialled := dialled w @ [if truthy (token tv) then token tv else PNone]\<rparr>
        in case transport e of
             OpenTimeout \<Rightarrow> (Inr (PBool False), tv, w1)
           | OpenError \<Rightarrow> (Inr (PBool False), tv, w1)
           | Opened reply \<Rightarrow>
               let tv1 = tv\<lparr>ws := Some (length (dialled w))\<rparr>
               in (case reply of
                     RecvTimeout \<Rightarrow> (Inr (PBool False), tv1, w1)
                   | RecvError \<Rightarrow> (Inr (PBool False), tv1, w1)
                   | NotJson \<Rightarrow> (Inr (PBool False), tv1, w1)
                   | Parsed data \<Rightarrow> on_handshake data tv1 w1))"

text \<open>\<open>await self.ws.send(frame)\<close>: \<open>None\<close> has no attribute \<open>send\<close>.\<close>

definition ws_send :: "nat option \<Rightarrow> pystr \<Rightarrow> world \<Rightarrow> world result" where
  "ws_send handle frame w =
     (case handle of
        None \<Rightarrow> (Inl AttributeError, w)
      | Some h \<Rightarrow> (Inr PNone, w\<lparr>sent := sent w @ [(h, frame)]\<rparr>))"

text \<open>
  The first two lines of \<open>key\<close>, \<open>text\<close> and \<open>app\<close>:
  \<^verbatim>\<open>if not self._connected: await self.connect()\<close>
  The value \<open>connect()\<close> returns is dropped.
\<close>

definition connect_if_needed :: "env \<Rightarrow> samsung_tv \<Rightarrow> world \<Rightarrow> (samsung_tv \<times> world) result" where
  "connect_if_needed e tv w = (if \<not> connected tv then connect e tv w else (Inr PNone, tv, w))"

definition key_payload :: "pystr \<Rightarrow> pyval" where
  "key_payload key_name =
     PDict [(S ''method'', PStr (S ''ms.remote.control'')),
            (S ''params'',
             PDict [(S ''Cmd'', PStr (S ''Click'')),
                    (S ''DataOfCmd'', PStr key_name),
                    (S ''Option'', PStr (S ''false'')),
                    (S ''TypeOfRemote'', PStr (S ''SendRemoteKey''))])]"

text \<open>\<open>SamsungTV.key\<close> (lines 107-125); the delay after the frame is not modelled.\<close>

definition key :: "unicode_case \<Rightarrow> env \<Rightarrow> pystr \<Rightarrow> samsung_tv \<Rightarrow> world \<Rightarrow> (samsung_tv \<times> world) result" where
  "key cm e key_name tv w =
     (case connect_if_needed e tv w of
        (Inl ex, tv1, w1) \<Rightarrow> (Inl ex, tv1, w1)
      | (Inr u, tv1, w1) \<Rightarrow>
          (case ws_send (ws tv1) (json_dumps (key_payload (normalize_prefix cm key_name))) w1 of
             (r, w2) \<Rightarrow> (r, tv1, w2)))"

definition text_payload :: "pystr \<Rightarrow> pyval" where
  "text_payload text_b64 =
     PDict [(S ''method'', PStr (S ''ms.remote.control'')),
            (S ''params'',
             PDict [(S ''Cmd'', PStr text_b64),
                    (S ''DataOfCmd'', PStr (S ''base64'')),
                    (S ''TypeOfRemote'', PStr (S ''SendInputString''))])]"

text \<open>\<open>base64.b64encode(text.encode()).decode()\<close>\<close>

definition text_b64 :: "pystr \<Rightarrow> py_exn + pystr" where
  "text_b64 txt = (case encode txt of Inl ex \<Rightarrow> Inl ex | Inr bs \<Rightarrow> decode (b64encode bs))"

text \<open>
  \<open>SamsungTV.text\<close> (lines 127-142), named \<open>tv_text\<close> here (\<open>text\<close> is a
  word of the theory language).
\<close>

definition tv_text :: "env \<Rightarrow> pystr \<Rightarrow> samsung_tv \<Rightarrow> world \<Rightarrow> (samsung_tv \<times> world) result" where
  "tv_text e txt tv w =
     (case connect_if_needed e tv w of
        (Inl ex, tv1, w1) \<Rightarrow> (Inl ex, tv1, w1)
      | (Inr u, tv1, w1) \<Rightarrow>
          (case text_b64 txt of
             Inl ex \<Rightarrow> (Inl ex, tv1, w1)
           | Inr b \<Rightarrow>
               (case ws_send (ws tv1) (json_dumps (text_payload b)) w1 of
                  (r, w2) \<Rightarrow> (r, tv1, w2))))"

definition app_payload :: "pystr \<Rightarrow> pyval" where
  "app_payload app_id =
     PDict [(S ''method'', PStr (S ''ms.channel.emit'')),
            (S ''params'',
             PDict [(S ''event'', PStr (S ''ed.apps.launch'')),
                    (S ''to'', PStr (S ''host'')),
                    (S ''data'',
                     PDict [(S ''appId'', PStr app_id),
                            (S ''action_type'', PStr (S ''DEEP_LINK''))])])]"



section \<open>play\_iplayer.py\<close>

record samsung_tv_automation =
  auto_ws :: "nat option"
  auto_token :: pyval


section \<open>tv\_controller.py\<close>

text \<open>\<open>SamsungRemote.APPS\<close> (lines 171-175).\<close>

definition SamsungRemote_APPS :: "(pystr \<times> pystr) list" where
  "SamsungRemote_APPS = map (\<lambda>(k, v). (S k, S v))
     [(''netflix'', ''3201907018807''), (''youtube'', ''111299001912''),
      (''prime'', ''3201910019365''), (''disney'', ''3201901017640''),
      (''plex'', ''3201512006963''), (''spotify'', ''3201606009684'')]"

record samsung_remote =
  ip :: pystr
  port :: int
  remote_ws :: "nat option"
  remote_token :: pyval

text \<open>
  \<open>SamsungRemote.send_key\<close> (lines 230-243).  \<open>not self.ws\<close> holds exactly when
  \<open>self.ws\<close> is \<open>None\<close>.
\<close>

definition send_key ::
  "unicode_case \<Rightarrow> pystr \<Rightarrow> samsung_remote \<Rightarrow> world \<Rightarrow> (samsung_remote \<times> world) result" where
  "send_key cm k r w =
     (if remote_ws r = None then (Inr (PBool False), r, w)
      else
        (case ws_send (remote_ws r) (json_dumps (key_payload (normalize_table cm k))) w of
           (Inl ex, w2) \<Rightarrow> (Inl ex, r, w2)
         | (Inr u, w2) \<Rightarrow> (Inr (PBool True), r, w2)))"

text \<open>Line 248: \<^verbatim>\<open>app_id = self.APPS.get(app_name.lower(), app_name)\<close>\<close>

definition remote_resolve_app :: "unicode_case \<Rightarrow> pystr \<Rightarrow> pystr" where
  "remote_resolve_app cm app_name = dict_get SamsungRemote_APPS (lower cm app_name) app_name"

text \<open>\<open>SamsungRemote.launch_app\<close> (lines 245-258).\<close>

definition launch_app ::
  "unicode_case \<Rightarrow> pystr \<Rightarrow> samsung_remote \<Rightarrow> world \<Rightarrow> (samsung_remote \<times> world) result" where
  "launch_app cm app_name r w =
     (if remote_ws r = None then (Inr (PBool False), r, w)
      else
        (case ws_send (remote_ws r) (json_dumps (app_payload (remote_resolve_app cm app_name))) w of
           (Inl ex, w2) \<Rightarrow> (Inl ex, r, w2)
         | (Inr u, w2) \<Rightarrow> (Inr (PBool True), r, w2)))"

text \<open>
  \<open>bytes.fromhex\<close>: a string with a non-ASCII character is refused; ASCII white space
  is skipped before each pair of digits, never inside one.
\<close>

definition hex_val :: "nat \<Rightarrow> nat option" where
  "hex_val c =
     (if 48 \<le> c \<and> c \<le> 57 then Some (c - 48)
      else if 97 \<le> c \<and> c \<le> 102 then Some (c - 87)
      else if 65 \<le> c \<and> c \<le> 70 then Some (c - 55)
      else None)"

definition ascii_space :: "nat \<Rightarrow> bool" where
  "ascii_space c = ((9 \<le> c \<and> c \<le> 13) \<or> c = 32)"

fun fromhex_loop :: "pystr \<Rightarrow> py_exn + bytes" where
  "fromhex_loop [] = Inr []"
| "fromhex_loop (c # cs) =
     (if ascii_space c then fromhex_loop cs
      else (case hex_val c of
              None \<Rightarrow> Inl ValueError
            | Some hi \<Rightarrow>
                (case cs of
                   [] \<Rightarrow> Inl ValueError
                 | d # r \<Rightarrow>
                     (case hex_val d of
                        None \<Rightarrow> Inl ValueError
                      | Some lo \<Rightarrow>
                          (case fromhex_loop r of
                             Inl ex \<Rightarrow> Inl ex
                           | Inr rest \<Rightarrow> Inr ((hi * 16 + lo) # rest))))))"

definition fromhex :: "pystr \<Rightarrow> py_exn + bytes" where
  "fromhex s = (if \<not> isascii s then Inl ValueError else fromhex_loop s)"

text \<open>\<open>s.replace(c, "")\<close> for a one-character \<open>c\<close>.\<close>

definition remove_char :: "nat \<Rightarrow> pystr \<Rightarrow> pystr" where
  "remove_char c s = filter (\<lambda>x. x \<noteq> c) s"

text \<open>
  \<open>wake_on_lan\<close> (lines 28-41); \<open>58\<close> is the colon, \<open>45\<close> the hyphen.
\<close>

definition wake_on_lan :: "pystr \<Rightarrow> world \<Rightarrow> world result" where
  "wake_on_lan mac_address w =
     (let mac = remove_char 45 (remove_char 58 mac_address)
      in if length mac \<noteq> 12 then (Inl ValueError, w)
         else
           (case fromhex mac of
              Inl ex \<Rightarrow> (Inl ex, w)
            | Inr mac_bytes \<Rightarrow>
                (let magic_packet = replicate 6 0xFF @ concat (replicate 16 mac_bytes)
                 in (Inr PNone,
                     w\<lparr>datagrams :=
                         datagrams w @ [(True, S ''255.255.255.255'', 9, magic_packet)]\<rparr>))))"

definition TV_MAC :: pystr where
  "TV_MAC = S ''6c:70:cb:a4:66:b4''"

text \<open>\<open>SamsungRemote.__init__\<close> (lines 177-181) and the address of line 19.\<close>

definition TV_IP :: pystr where
  "TV_IP = S ''192.168.0.135''"

definition SamsungRemote :: "pystr \<Rightarrow> int \<Rightarrow> samsung_remote" where
  "SamsungRemote ip0 port0 = \<lparr>ip = ip0, port = port0, remote_ws = None, remote_token = PNone\<rparr>"

section \<open>Notions of the specification\<close>

text \<open>A world in which nothing has happened yet and no token has been stored.\<close>

definition fresh_world :: world where
  "fresh_world = \<lparr>token_file = None, dialled = [], sent = [], datagrams = []\<rparr>"

text \<open>The same world with a token in the token file.\<close>

definition stored_world :: "pystr \<Rightarrow> world" where
  "stored_world t = fresh_world\<lparr>token_file := Some t\<rparr>"

text \<open>
  Three situations a call of \<open>connect()\<close> can meet: the television accepts the
  connection and sends nothing within the 15 seconds of line 92; the television cannot
  be reached; the television answers with the message \<open>data\<close>.
\<close>

definition timeout_env :: env where
  "timeout_env = \<lparr>websockets_installed = True, transport = Opened RecvTimeout\<rparr>"

definition unreachable_env :: env where
  "unreachable_env = \<lparr>websockets_installed = True, transport = OpenTimeout\<rparr>"

definition reply_env :: "pyval \<Rightarrow> env" where
  "reply_env data = \<lparr>websockets_installed = True, transport = Opened (Parsed data)\<rparr>"

text \<open>
  The handshake response of the wire protocol,
  \<^verbatim>\<open>{"event": "ms.channel.connect", "data": {"token": tok}}\<close>, and the message a
  television sends when the user refuses the connection.
\<close>

definition handshake_msg :: "pyval \<Rightarrow> pyval" where
  "handshake_msg tok =
     PDict [(S ''event'', PStr (S ''ms.channel.connect'')),
            (S ''data'', PDict [(S ''token'', tok)])]"

definition unauthorized_msg :: pyval where
  "unauthorized_msg = PDict [(S ''event'', PStr (S ''ms.channel.unauthorized''))]"

(*DEFS_END*)
section \<open>Key-name normalisation\<close>

lemma startswith_append: "startswith (p @ t) p"
  by (simp add: startswith_def)

lemma KEYS_values: "list_all (\<lambda>(k, v). startswith v (S ''KEY_'')) KEYS"
  by (simp add: KEYS_def S_def startswith_def)

lemma KEYS_lookup: "map_of KEYS k = Some v \<Longrightarrow> startswith v (S ''KEY_'')"
proof -
  assume "map_of KEYS k = Some v"
  then have "(k, v) \<in> set KEYS" by (rule map_of_SomeD)
  with KEYS_values show ?thesis by (auto simp: list_all_iff)
qed

lemma normalize_prefix_startswith: "startswith (normalize_prefix cm x) (S ''KEY_'')"
  by (simp add: normalize_prefix_def startswith_append)

lemma normalize_prefix_idem:
  "normalize_prefix cm (normalize_prefix cm x) = normalize_prefix cm x"
  using normalize_prefix_startswith [of cm x] by (simp add: normalize_prefix_def)

lemma normalize_table_startswith: "startswith (normalize_table cm x) (S ''KEY_'')"
  by (auto simp: normalize_table_def dict_get_def startswith_append KEYS_lookup
      split: option.splits)

text \<open>
  C4, amended.  For every key name and every case mapping, both normalisations give a
  name that starts with \<open>KEY_\<close>, and the prefix-check form (\<open>SamsungTV.key\<close>,
  \<open>SamsungTVAutomation.send_key\<close>) is idempotent.  Nothing is said of idempotence of
  the lookup-table form (\<open>SamsungRemote.send_key\<close>).
\<close>

theorem normalize_prefixed_and_idempotent:
  "normalize_prefix cm (normalize_prefix cm x) = normalize_prefix cm x
   \<and> startswith (normalize_prefix cm x) (S ''KEY_'')
   \<and> startswith (normalize_table cm x) (S ''KEY_'')"
  by (simp add: normalize_prefix_idem normalize_prefix_startswith normalize_table_startswith)

text \<open>
  C4 as stated fails for the lookup-table form: \<open>up\<close> becomes \<open>KEY_UP\<close>, whose
  lower-case form \<open>key_up\<close> is no key of the table, so a second pass prefixes it again.
\<close>

theorem normalize_table_not_idempotent:
  "normalize_table uncased (S ''up'') = S ''KEY_UP''
   \<and> normalize_table uncased (normalize_table uncased (S ''up'')) = S ''KEY_KEY_UP''
   \<and> normalize_table uncased (normalize_table uncased (S ''up''))
       \<noteq> normalize_table uncased (S ''up'')"
  by (simp add: normalize_table_def KEYS_def S_def dict_get_def lower_def upper_def
      isascii_def ascii_lower_def ascii_upper_def)

lemma ascii_case_pointwise: "ascii_lower a = ascii_lower b \<longleftrightarrow> ascii_upper a = ascii_upper b"
  by (auto simp: ascii_lower_def ascii_upper_def)

lemma ascii_case_lists:
  "map ascii_lower x = map ascii_lower y \<longleftrightarrow> map ascii_upper x = map ascii_upper y"
proof (induction x arbitrary: y)
  case Nil
  then show ?case by simp
next
  case (Cons a x)
  then show ?case by (cases y) (auto simp: ascii_case_pointwise)
qed

text \<open>On ASCII strings \<open>caseless_eq\<close> is equality of the lower-case forms.\<close>

lemma caseless_eq_ascii:
  "isascii x \<Longrightarrow> isascii y \<Longrightarrow>
   caseless_eq cm x y \<longleftrightarrow> map ascii_lower x = map ascii_lower y"
  using ascii_case_lists [of x y] by (auto simp: caseless_eq_def lower_def upper_def)




section \<open>Commands without a session\<close>

text \<open>
  C10.  In \<open>SamsungRemote\<close>, \<open>send_key\<close> and \<open>launch_app\<close> called while \<open>self.ws\<close> is
  \<open>None\<close> return \<open>False\<close> and leave the client and the world as they were: no frame is
  sent and no connection is dialled.
\<close>

theorem no_session_returns_False:
  "remote_ws r = None \<Longrightarrow>
     send_key cm k r w = (Inr (PBool False), r, w)
     \<and> launch_app cm a r w = (Inr (PBool False), r, w)"
  by (simp add: send_key_def launch_app_def)

theorem no_session_returns_False_witness:
  "remote_ws (SamsungRemote TV_IP 8002) = None
   \<and> send_key uncased (S ''up'') (SamsungRemote TV_IP 8002) fresh_world
       = (Inr (PBool False), SamsungRemote TV_IP 8002, fresh_world)
   \<and> launch_app uncased (S ''netflix'') (SamsungRemote TV_IP 8002) fresh_world
       = (Inr (PBool False), SamsungRemote TV_IP 8002, fresh_world)"
proof -
  have h: "remote_ws (SamsungRemote TV_IP 8002) = None" by (simp add: SamsungRemote_def)
  show ?thesis using h no_session_returns_False [OF h] by simp
qed

section \<open>What a command puts on the wire\<close>












text \<open>The frame of the key \<open>home\<close>, as the text \<open>json.dumps\<close> produces.\<close>

lemma key_frame_text:
  "json_dumps (key_payload (normalize_prefix cm (S ''home''))) =
     S ''{\"method\": \"ms.remote.control\", \"params\": {\"Cmd\": \"Click\", \"DataOfCmd\": \"KEY_HOME\", \"Option\": \"false\", \"TypeOfRemote\": \"SendRemoteKey\"}}''"
  by (simp add: key_payload_def S_def json_str_def json_escape_def normalize_prefix_def
      startswith_def upper_def isascii_def ascii_upper_def)

section \<open>App names\<close>





section \<open>Connecting\<close>

lemmas eval_defs = connect_def on_handshake_def save_token_def SamsungTV_def load_token_def
  fresh_world_def timeout_env_def unreachable_env_def reply_env_def handshake_msg_def
  unauthorized_msg_def dict_get_def S_def Let_def key_def connect_if_needed_def ws_send_def

lemma connect_failure_modes:
  assumes "\<not> connected tv"
    and "\<not> websockets_installed e \<or> transport e = OpenTimeout \<or> transport e = OpenError
         \<or> transport e = Opened RecvTimeout \<or> transport e = Opened RecvError
         \<or> transport e = Opened NotJson"
  shows "fst (connect e tv w) = Inr (PBool False) \<and> \<not> connected (fst (snd (connect e tv w)))"
  using assms by (auto simp: connect_def Let_def)

lemma on_handshake_connected:
  "connected (fst (snd (on_handshake data tv w))) \<Longrightarrow> \<not> connected tv \<Longrightarrow>
   fst (on_handshake data tv w) = Inr (PBool True)"
  by (auto simp: on_handshake_def split: sum.splits prod.splits if_splits)

lemma connect_connected_iff:
  "\<not> connected tv \<Longrightarrow> connected (fst (snd (connect e tv w))) \<Longrightarrow>
   fst (connect e tv w) = Inr (PBool True)"
  by (auto simp: connect_def Let_def split: transport.splits handshake.splits if_splits
      dest: on_handshake_connected)

lemma connect_result_values:
  "fst (connect e tv w) \<in> {Inr (PBool True), Inr (PBool False), Inr PNone}"
  by (auto simp: connect_def on_handshake_def Let_def
      split: transport.splits handshake.splits sum.splits prod.splits)

lemma py_eq_PStr: "py_eq x (PStr t) \<longleftrightarrow> x = PStr t"
  by (cases x) auto

lemma py_eq_PStr_left: "py_eq (PStr t) x \<longleftrightarrow> x = PStr t"
  by (cases x) auto

text \<open>
  C3 at the failing input: the television answers with an event that is not
  \<open>ms.channel.connect\<close>.  \<open>connect()\<close> returns \<open>None\<close>, not \<open>False\<close>
  (\<open>connect_failure_modes\<close> above: in the other failure modes it returns \<open>False\<close>, and
  by \<open>connect_connected_iff\<close> the client is connected only when it returns \<open>True\<close>).
\<close>

theorem connect_other_event_returns_None:
  "connect (reply_env unauthorized_msg) (SamsungTV fresh_world) fresh_world
     = (Inr PNone, (SamsungTV fresh_world)\<lparr>ws := Some 0\<rparr>, fresh_world\<lparr>dialled := [PNone]\<rparr>)"
  by (simp add: eval_defs)

text \<open>
  C1 at the failing inputs.  A new client whose \<open>connect()\<close> fails after the socket
  was opened sends the key frame all the same and returns as after a success; when the
  socket could not be opened, \<open>self.ws\<close> is \<open>None\<close> and \<open>AttributeError\<close> reaches the
  caller.
\<close>

theorem key_sends_after_failed_connect:
  "fst (connect timeout_env (SamsungTV fresh_world) fresh_world) = Inr (PBool False)
   \<and> key uncased timeout_env (S ''enter'') (SamsungTV fresh_world) fresh_world
       = (Inr PNone, (SamsungTV fresh_world)\<lparr>ws := Some 0\<rparr>,
          fresh_world\<lparr>dialled := [PNone],
                       sent := [(0, json_dumps (key_payload (S ''KEY_ENTER'')))]\<rparr>)
   \<and> fst (connect unreachable_env (SamsungTV fresh_world) fresh_world) = Inr (PBool False)
   \<and> key uncased unreachable_env (S ''enter'') (SamsungTV fresh_world) fresh_world
       = (Inl AttributeError, SamsungTV fresh_world, fresh_world\<lparr>dialled := [PNone]\<rparr>)"
  by (simp add: eval_defs normalize_prefix_def startswith_def upper_def isascii_def ascii_upper_def)

section \<open>The pairing token\<close>

text \<open>
  C2, amended.  After a handshake of type \<open>ms.channel.connect\<close> whose payload carries a
  non-empty string token \<open>T\<close> that UTF-8 can encode and that differs from the token
  held, the token in memory and the token file both equal \<open>T\<close>; after a handshake that
  carries no token, an empty token or the token held, both are as they were.
\<close>

theorem token_persistence:
  assumes "\<not> connected tv" and "websockets_installed e"
    and "transport e = Opened (Parsed data)"
    and "py_get data (S ''event'') PNone = Inr (PStr (S ''ms.channel.connect''))"
    and "py_get data (S ''data'') (PDict []) = Inr d"
    and "py_get d (S ''token'') PNone = Inr T"
  shows "(T = PStr t \<and> t \<noteq> [] \<and> token tv \<noteq> PStr t \<and> encode t = Inr bs \<longrightarrow>
            fst (connect e tv w) = Inr (PBool True)
            \<and> token (fst (snd (connect e tv w))) = PStr t
            \<and> token_file (snd (snd (connect e tv w))) = Some t)
       \<and> (T = PNone \<or> T = PStr [] \<or> (T = PStr t \<and> token tv = PStr t) \<longrightarrow>
            fst (connect e tv w) = Inr (PBool True)
            \<and> token (fst (snd (connect e tv w))) = token tv
            \<and> token_file (snd (snd (connect e tv w))) = token_file w)"
  using assms
  by (auto simp: connect_def on_handshake_def save_token_def Let_def py_eq_PStr_left)

theorem token_persistence_witness:
  "token (fst (snd (connect (reply_env (handshake_msg (PStr (S ''T1''))))
                      (SamsungTV fresh_world) fresh_world))) = PStr (S ''T1'')
   \<and> token_file (snd (snd (connect (reply_env (handshake_msg (PStr (S ''T1''))))
                      (SamsungTV fresh_world) fresh_world))) = Some (S ''T1'')
   \<and> token (fst (snd (connect (reply_env (handshake_msg (PStr (S ''T2''))))
                      (SamsungTV (stored_world (S ''T1''))) (stored_world (S ''T1''))))) = PStr (S ''T2'')
   \<and> token_file (snd (snd (connect (reply_env (handshake_msg (PStr (S ''T2''))))
                      (SamsungTV (stored_world (S ''T1''))) (stored_world (S ''T1''))))) = Some (S ''T2'')
   \<and> token (fst (snd (connect (reply_env (handshake_msg PNone))
                      (SamsungTV (stored_world (S ''T1''))) (stored_world (S ''T1''))))) = PStr (S ''T1'')
   \<and> token_file (snd (snd (connect (reply_env (handshake_msg PNone))
                      (SamsungTV (stored_world (S ''T1''))) (stored_world (S ''T1''))))) = Some (S ''T1'')"
proof -
  have i: "websockets_installed (reply_env m)" for m by (simp add: reply_env_def)
  have tr: "transport (reply_env m) = Opened (Parsed m)" for m by (simp add: reply_env_def)
  have ev: "py_get (handshake_msg T) (S ''event'') PNone = Inr (PStr (S ''ms.channel.connect''))" for T
    by (simp add: handshake_msg_def dict_get_def S_def)
  have da: "py_get (handshake_msg T) (S ''data'') (PDict []) = Inr (PDict [(S ''token'', T)])" for T
    by (simp add: handshake_msg_def dict_get_def S_def)
  have tk: "py_get (PDict [(S ''token'', T)]) (S ''token'') PNone = Inr T" for T
    by (simp add: dict_get_def)
  have c0: "\<not> connected (SamsungTV w)" for w by (simp add: SamsungTV_def)
  have t0: "token (SamsungTV fresh_world) = PNone"
    by (simp add: SamsungTV_def load_token_def fresh_world_def)
  have t1: "token (SamsungTV (stored_world (S ''T1''))) = PStr (S ''T1'')"
    by (simp add: SamsungTV_def load_token_def stored_world_def fresh_world_def strip_def isspace_def S_def)
  have f1: "token_file (stored_world (S ''T1'')) = Some (S ''T1'')"
    by (simp add: stored_world_def)
  have e1: "encode (S ''T1'') = Inr (S ''T1'')" by (simp add: S_def utf8_char_def)
  have e2: "encode (S ''T2'') = Inr (S ''T2'')" by (simp add: S_def utf8_char_def)
  have n1: "S ''T1'' \<noteq> []" "S ''T2'' \<noteq> []" "S ''T1'' \<noteq> S ''T2''" by (simp_all add: S_def)
  note a = token_persistence [OF c0 i tr ev da tk, of "PStr (S ''T1'')" "S ''T1''" fresh_world "S ''T1''" fresh_world]
  note b = token_persistence [OF c0 i tr ev da tk, of "PStr (S ''T2'')" "S ''T2''" "stored_world (S ''T1'')" "S ''T2''" "stored_world (S ''T1'')"]
  note c = token_persistence [OF c0 i tr ev da tk, of PNone "S ''T1''" "stored_world (S ''T1'')" "S ''T1''" "stored_world (S ''T1'')"]
  show ?thesis using a b c t0 t1 f1 e1 e2 n1 by simp
qed

text \<open>
  C2 as stated fails for the empty token, which line 97 treats as no token (the token
  held, \<open>abc\<close>, stays in memory and in the file), and for a token UTF-8 cannot encode,
  which is kept in memory while the file is left empty.
\<close>

theorem token_not_persisted:
  "token (SamsungTV (stored_world (S ''abc''))) = PStr (S ''abc'')
   \<and> connect (reply_env (handshake_msg (PStr []))) (SamsungTV (stored_world (S ''abc'')))
        (stored_world (S ''abc''))
      = (Inr (PBool True),
         \<lparr>ws = Some 0, token = PStr (S ''abc''), connected = True\<rparr>,
         (stored_world (S ''abc''))\<lparr>dialled := [PStr (S ''abc'')]\<rparr>)
   \<and> connect (reply_env (handshake_msg (PStr [0xD800]))) (SamsungTV (stored_world (S ''abc'')))
        (stored_world (S ''abc''))
      = (Inr (PBool False),
         \<lparr>ws = Some 0, token = PStr [0xD800], connected = False\<rparr>,
         (stored_world (S ''abc''))\<lparr>token_file := Some [], dialled := [PStr (S ''abc'')]\<rparr>)"
  by (simp add: eval_defs stored_world_def strip_def isspace_def utf8_char_def)

end
